theory Spec2Isabelle
  imports Complex_Main "HOL-Library.Multiset"
begin

section \<open>Python strings and slices\<close>

text \<open>
  A Python \<open>str\<close> is a sequence of Unicode code points: \<open>len\<close>, slicing and
  \<open>in\<close> all count code points. It is modelled as a list of code point numbers.
\<close>

type_synonym ustr = "nat list"

text \<open>The slice \<open>xs[:n]\<close>: a negative bound counts from the end.\<close>

definition py_take :: "int \<Rightarrow> 'a list \<Rightarrow> 'a list" where
  "py_take n xs =
     (if 0 \<le> n then take (nat n) xs else take (length xs - nat (- n)) xs)"

section \<open>generate\_intel.py: merge\_dedupe\<close>

text \<open>
  The items are dictionaries built by \<open>_make_news_item\<close> and \<open>_make_social_item\<close>.
  \<open>merge_dedupe\<close> reads two entries: \<open>item["title"]\<close> and \<open>item.get("pub_dt")\<close>.
  A \<open>pub_dt\<close> is a timezone-aware \<open>datetime\<close> or \<open>None\<close>; aware datetimes compare by
  the instant they denote, which is modelled as an integer number of microseconds since
  0001-01-01T00:00:00 UTC. \<open>None\<close> stands for both a missing entry and the value
  \<open>None\<close>, which \<open>x.get("pub_dt") or ...\<close> does not tell apart.
\<close>

record item =
  title :: ustr
  source :: ustr
  link :: ustr
  pub_dt :: "int option"

text \<open>\<open>datetime.min.replace(tzinfo=CST)\<close>: 0001-01-01T00:00:00+08:00.\<close>

definition dt_min_cst :: int where
  "dt_min_cst = - (8 * 3600 * 1000000)"

text \<open>The sort key \<open>lambda x: x.get("pub_dt") or datetime.min.replace(tzinfo=CST)\<close>.\<close>

definition sort_ts :: "item \<Rightarrow> int" where
  "sort_ts x = (case pub_dt x of None \<Rightarrow> dt_min_cst | Some t \<Rightarrow> t)"

text \<open>
  \<open>list.sort(key=f, reverse=True)\<close>: the list is reversed, sorted stably in ascending
  order of the key, and reversed again, so that items with equal keys keep their order.
\<close>

definition py_sort_reverse :: "('a \<Rightarrow> int) \<Rightarrow> 'a list \<Rightarrow> 'a list" where
  "py_sort_reverse f xs = rev (sort_key f (rev xs))"

text \<open>The dedupe key \<open>item["title"][:key_len]\<close>.\<close>

definition dedupe_key :: "int \<Rightarrow> item \<Rightarrow> ustr" where
  "dedupe_key key_len x = py_take key_len (title x)"

text \<open>The body of the inner loop, on the state \<open>(seen, merged)\<close>.\<close>

definition dedupe_step :: "int \<Rightarrow> ustr set \<times> item list \<Rightarrow> item \<Rightarrow> ustr set \<times> item list" where
  "dedupe_step key_len st x =
     (let key = dedupe_key key_len x in
      if key \<notin> fst st then (insert key (fst st), snd st @ [x]) else st)"

text \<open>The two nested \<open>for\<close> loops, from \<open>seen, merged = set(), []\<close>.\<close>

definition merge_loop :: "item list list \<Rightarrow> int \<Rightarrow> ustr set \<times> item list" where
  "merge_loop sources key_len =
     foldl (\<lambda>st src. foldl (dedupe_step key_len) st src) ({}, []) sources"

definition merge_dedupe :: "item list list \<Rightarrow> int \<Rightarrow> item list" where
  "merge_dedupe sources key_len = py_sort_reverse sort_ts (snd (merge_loop sources key_len))"

text \<open>The default \<open>key_len=20\<close>.\<close>

definition merge_dedupe_default :: "item list list \<Rightarrow> item list" where
  "merge_dedupe_default sources = merge_dedupe sources 20"

section \<open>Python text operations\<close>

text \<open>
  Code points are written in hexadecimal. The embedding follows Python on text made of
  ASCII and CJK characters, which is what the sources handle. Two tables of the
  interpreter are cut down to their ASCII part: the decimal digits (Unicode category Nd)
  read by \<open>int\<close>, \<open>float\<close> and the pattern \<open>\d\<close>, and the case mapping
  of \<open>str.lower\<close>; every other code point counts as a non-digit without case.
  The results on concrete texts below use ASCII and CJK characters only.
\<close>

text \<open>\<open>c.isspace()\<close>, the characters that \<open>str.strip()\<close> and the pattern \<open>\s\<close> take.\<close>

definition py_isspace :: "nat \<Rightarrow> bool" where
  "py_isspace c =
     ((0x09 \<le> c \<and> c \<le> 0x0D) \<or> (0x1C \<le> c \<and> c \<le> 0x20) \<or> c = 0x85 \<or> c = 0xA0
      \<or> c = 0x1680 \<or> (0x2000 \<le> c \<and> c \<le> 0x200A) \<or> c = 0x2028 \<or> c = 0x2029
      \<or> c = 0x202F \<or> c = 0x205F \<or> c = 0x3000)"

text \<open>\<open>s.strip(chars)\<close> for a set of characters given as a predicate.\<close>

definition strip_where :: "(nat \<Rightarrow> bool) \<Rightarrow> ustr \<Rightarrow> ustr" where
  "strip_where p s = rev (dropWhile p (rev (dropWhile p s)))"

definition py_strip :: "ustr \<Rightarrow> ustr" where
  "py_strip s = strip_where py_isspace s"

definition py_strip_chars :: "ustr \<Rightarrow> ustr \<Rightarrow> ustr" where
  "py_strip_chars chars s = strip_where (\<lambda>c. c \<in> set chars) s"

text \<open>\<open>kw in t\<close>: \<open>kw\<close> occurs in \<open>t\<close> as a contiguous substring.\<close>

fun py_in :: "ustr \<Rightarrow> ustr \<Rightarrow> bool" where
  "py_in kw [] = (kw = [])"
| "py_in kw (c # cs) = (take (length kw) (c # cs) = kw \<or> py_in kw cs)"

text \<open>
  \<open>s.replace(old, new)\<close>: every occurrence of \<open>old\<close>, left to right and without
  overlap; an empty \<open>old\<close> matches before every character and at the end.
\<close>

function py_replace :: "ustr \<Rightarrow> ustr \<Rightarrow> ustr \<Rightarrow> ustr" where
  "py_replace old new [] = (if old = [] then new else [])"
| "py_replace old new (c # cs) =
     (if old = [] then new @ c # py_replace old new cs
      else if take (length old) (c # cs) = old
      then new @ py_replace old new (drop (length old) (c # cs))
      else c # py_replace old new cs)"
  by pat_completeness auto
termination
  by (relation "measure (\<lambda>(old, new, s). length s)") auto

text \<open>\<open>s.lower()\<close>, on the ASCII letters.\<close>

definition lower_cp :: "nat \<Rightarrow> nat" where
  "lower_cp c = (if 0x41 \<le> c \<and> c \<le> 0x5A then c + 0x20 else c)"

definition py_lower :: "ustr \<Rightarrow> ustr" where
  "py_lower s = map lower_cp s"

text \<open>
  \<open>w.rfind(p)\<close> for a one-character string \<open>p\<close>: the highest index of \<open>p\<close> in
  \<open>w\<close>, or \<open>-1\<close>.
\<close>

definition py_rfind :: "ustr \<Rightarrow> nat \<Rightarrow> int" where
  "py_rfind w p =
     (if p \<in> set w then int (length w) - 1 - int (length (takeWhile (\<lambda>c. c \<noteq> p) (rev w)))
      else - 1)"

section \<open>generate\_intel.py: classify\_text\<close>

definition KEYWORDS_ADJUST :: "ustr list" where
  "KEYWORDS_ADJUST =
     [[0x8C03, 0x4EF7], [0x6DA8, 0x4EF7], [0x63D0, 0x4EF7], [0x964D, 0x4EF7],
      [0x4EF7, 0x683C, 0x8C03, 0x6574], [0x4E0A, 0x8C03], [0x4E0B, 0x8C03]]"

definition KEYWORDS_PROMO :: "ustr list" where
  "KEYWORDS_PROMO =
     [[0x4FC3, 0x9500], [0x5927, 0x4FC3], [0x4F18, 0x60E0], [0x6298, 0x6263],
      [0x6EE1, 0x51CF], [0x6D3B, 0x52A8], [0x4E13, 0x573A], [0x9650, 0x65F6],
      [0x79D2, 0x6740]]"

text \<open>The fifth finance keyword is the upper-case ASCII string \<open>IPO\<close>.\<close>

definition KEYWORDS_FINANCE :: "ustr list" where
  "KEYWORDS_FINANCE =
     [[0x8D22, 0x62A5], [0x4E1A, 0x7EE9], [0x8425, 0x6536], [0x5229, 0x6DA6],
      [0x49, 0x50, 0x4F], [0x80A1, 0x4E1C], [0x80A1, 0x6743], [0x5206, 0x7EA2],
      [0x56DE, 0x8D2D], [0x8BC4, 0x7EA7]]"

text \<open>\<open>any(kw in t for kw in kws)\<close>.\<close>

definition any_kw :: "ustr list \<Rightarrow> ustr \<Rightarrow> bool" where
  "any_kw kws t = list_ex (\<lambda>kw. py_in kw t) kws"

definition classify_text :: "ustr \<Rightarrow> string" where
  "classify_text text =
     (let t = py_lower text in
      if any_kw KEYWORDS_ADJUST t then ''adjust''
      else if any_kw KEYWORDS_PROMO t then ''promo''
      else if any_kw KEYWORDS_FINANCE t then ''finance''
      else ''general'')"

section \<open>Python numbers: int and float\<close>

datatype py_error = ValueError | OverflowError

text \<open>
  A \<open>float\<close> is an IEEE 754 binary64 value: \<open>Finite neg m e\<close> is
  \<open>(-1)^neg * m * 2^e\<close>, with \<open>m < 2^53\<close> and \<open>-1074 \<le> e \<le> 971\<close> for the
  values that rounding produces.
\<close>

datatype pyfloat = Finite bool nat int | Infinity bool | NaN

fun bit_length :: "nat \<Rightarrow> nat" where
  "bit_length n = (if n = 0 then 0 else Suc (bit_length (n div 2)))"

declare bit_length.simps [simp del]

text \<open>\<open>num / den\<close> scaled by \<open>2^(-q)\<close>, as a fraction of naturals.\<close>

definition scale2 :: "nat \<Rightarrow> nat \<Rightarrow> int \<Rightarrow> nat \<times> nat" where
  "scale2 num den q =
     (if 0 \<le> q then (num, den * 2 ^ nat q) else (num * 2 ^ nat (- q), den))"

text \<open>The nearest natural to \<open>n / d\<close>, ties to the even one.\<close>

definition round_half_even :: "nat \<Rightarrow> nat \<Rightarrow> nat" where
  "round_half_even n d =
     (let q = n div d; r = n mod d in
      if d < 2 * r \<or> (2 * r = d \<and> odd q) then Suc q else q)"

text \<open>
  The binary64 value nearest to \<open>num / den\<close> (\<open>den > 0\<close>), ties to even, with the sign
  \<open>neg\<close>. \<open>e\<close> is the binary exponent of the quotient, \<open>2^e \<le> num / den < 2^(e+1)\<close>,
  and \<open>q\<close> the exponent of the last place of the 53-bit significand; below \<open>2^(-1022)\<close>
  the last place stays at \<open>2^(-1074)\<close> (subnormal numbers), and a result of \<open>2^1024\<close>
  or more is an infinity.
\<close>

definition fround :: "bool \<Rightarrow> nat \<Rightarrow> nat \<Rightarrow> pyfloat" where
  "fround neg num den =
     (if num = 0 then Finite neg 0 0
      else
        let e0 = int (bit_length num) - int (bit_length den);
            e = (if snd (scale2 num den e0) \<le> fst (scale2 num den e0) then e0 else e0 - 1);
            q = max e (- 1022) - 52;
            m = round_half_even (fst (scale2 num den q)) (snd (scale2 num den q))
        in if 971 < q \<or> (q = 971 \<and> 2 ^ 53 \<le> m) then Infinity neg else Finite neg m q)"

text \<open>The value \<open>m * 2^e\<close>, rounded.\<close>

definition fround2 :: "bool \<Rightarrow> nat \<Rightarrow> int \<Rightarrow> pyfloat" where
  "fround2 neg m e = (if 0 \<le> e then fround neg (m * 2 ^ nat e) 1 else fround neg m (2 ^ nat (- e)))"

text \<open>\<open>x * y\<close> on floats.\<close>

fun f_mul :: "pyfloat \<Rightarrow> pyfloat \<Rightarrow> pyfloat" where
  "f_mul (Finite s1 m1 e1) (Finite s2 m2 e2) = fround2 (s1 \<noteq> s2) (m1 * m2) (e1 + e2)"
| "f_mul (Finite s1 m1 e1) (Infinity s2) = (if m1 = 0 then NaN else Infinity (s1 \<noteq> s2))"
| "f_mul (Infinity s1) (Finite s2 m2 e2) = (if m2 = 0 then NaN else Infinity (s1 \<noteq> s2))"
| "f_mul (Infinity s1) (Infinity s2) = Infinity (s1 \<noteq> s2)"
| "f_mul NaN y = NaN"
| "f_mul x NaN = NaN"

text \<open>The \<open>int\<close> literal \<open>10000\<close> as a float operand: converted exactly.\<close>

definition f_10000 :: pyfloat where
  "f_10000 = Finite False 10000 0"

text \<open>
  \<open>int(x)\<close> for a float: truncation towards zero; an infinity raises
  \<open>OverflowError\<close> and a NaN raises \<open>ValueError\<close>.
\<close>

fun py_int_of_float :: "pyfloat \<Rightarrow> py_error + int" where
  "py_int_of_float (Finite neg m e) =
     (let mag = (if 0 \<le> e then int m * 2 ^ nat e else int m div 2 ^ nat (- e))
      in Inr (if neg then - mag else mag))"
| "py_int_of_float (Infinity neg) = Inl OverflowError"
| "py_int_of_float NaN = Inl ValueError"

subsection \<open>Reading numbers from text\<close>

definition is_digit :: "nat \<Rightarrow> bool" where
  "is_digit c = (0x30 \<le> c \<and> c \<le> 0x39)"

text \<open>
  The white space that \<open>int\<close> and \<open>float\<close> skip at both ends: the characters of
  \<open>isspace\<close> except the four ASCII separators \<open>0x1C\<close> to \<open>0x1F\<close>.
\<close>

definition num_space :: "nat \<Rightarrow> bool" where
  "num_space c = (py_isspace c \<and> \<not> (0x1C \<le> c \<and> c \<le> 0x1F))"

text \<open>An underscore is read only between two digits; \<open>prev\<close> is the character before.\<close>

fun underscores_ok :: "nat \<Rightarrow> ustr \<Rightarrow> bool" where
  "underscores_ok prev [] = (prev \<noteq> 0x5F)"
| "underscores_ok prev (c # cs) =
     (if c = 0x5F then is_digit prev \<and> underscores_ok c cs
      else if prev = 0x5F then is_digit c \<and> underscores_ok c cs
      else underscores_ok c cs)"

text \<open>The number written by decimal digits, most significant first.\<close>

definition decimal :: "ustr \<Rightarrow> nat" where
  "decimal ds = foldl (\<lambda>n c. 10 * n + (c - 0x30)) 0 ds"

text \<open>An optional sign in front: whether it is a minus, and the rest.\<close>

fun split_sign :: "ustr \<Rightarrow> bool \<times> ustr" where
  "split_sign [] = (False, [])"
| "split_sign (c # cs) =
     (if c = 0x2D then (True, cs) else if c = 0x2B then (False, cs) else (False, c # cs))"

text \<open>
  \<open>int(s)\<close> for a string, in base 10. The bound that the interpreter may put on the
  number of digits (a \<open>ValueError\<close> above \<open>sys.get_int_max_str_digits()\<close> digits) is
  left out.
\<close>

definition py_int_of_str :: "ustr \<Rightarrow> py_error + int" where
  "py_int_of_str s =
     (let t = strip_where num_space s in
      if \<not> underscores_ok 0 t then Inl ValueError
      else
        let u = filter (\<lambda>c. c \<noteq> 0x5F) t;
            neg = fst (split_sign u);
            ds = snd (split_sign u)
        in if ds \<noteq> [] \<and> list_all is_digit ds
           then Inr (if neg then - int (decimal ds) else int (decimal ds))
           else Inl ValueError)"

text \<open>
  The exponent part of a float literal, \<open>("e" | "E") [sign] digits\<close>, or nothing:
  the decimal exponent it denotes, \<open>None\<close> when the text is neither.
\<close>

definition exponent_part :: "ustr \<Rightarrow> int option" where
  "exponent_part r =
     (case r of
        [] \<Rightarrow> Some 0
      | c # cs \<Rightarrow>
          if c = 0x65 \<or> c = 0x45 then
            (let ds = snd (split_sign cs) in
             if ds \<noteq> [] \<and> list_all is_digit ds
             then Some (if fst (split_sign cs) then - int (decimal ds) else int (decimal ds))
             else None)
          else None)"

text \<open>
  An unsigned decimal literal: digits, an optional point and digits, with at least one
  digit in all, and an optional exponent. The value is \<open>mant * 10^ex\<close>.
\<close>

definition decimal_literal :: "ustr \<Rightarrow> (nat \<times> int) option" where
  "decimal_literal u =
     (let ip = takeWhile is_digit u;
          r1 = dropWhile is_digit u;
          fp = (case r1 of [] \<Rightarrow> [] | c # cs \<Rightarrow> if c = 0x2E then takeWhile is_digit cs else []);
          r2 = (case r1 of [] \<Rightarrow> [] | c # cs \<Rightarrow> if c = 0x2E then dropWhile is_digit cs else r1)
      in if ip = [] \<and> fp = [] then None
         else (case exponent_part r2 of
                 None \<Rightarrow> None
               | Some x \<Rightarrow> Some (decimal (ip @ fp), x - int (length fp))))"

text \<open>
  \<open>float(s)\<close> for a string: \<open>inf\<close>, \<open>infinity\<close> and \<open>nan\<close> in any case, or a
  decimal literal, rounded to the nearest float.
\<close>

definition py_float_of_str :: "ustr \<Rightarrow> py_error + pyfloat" where
  "py_float_of_str s =
     (let t = strip_where num_space s in
      if \<not> underscores_ok 0 t then Inl ValueError
      else
        let u = filter (\<lambda>c. c \<noteq> 0x5F) t;
            neg = fst (split_sign u);
            body = snd (split_sign u);
            low = py_lower body
        in if low = [0x69, 0x6E, 0x66] \<or> low = [0x69, 0x6E, 0x66, 0x69, 0x6E, 0x69, 0x74, 0x79]
           then Inr (Infinity neg)
           else if low = [0x6E, 0x61, 0x6E] then Inr NaN
           else (case decimal_literal body of
                   None \<Rightarrow> Inl ValueError
                 | Some (mant, ex) \<Rightarrow>
                     Inr (if 0 \<le> ex then fround neg (mant * 10 ^ nat ex) 1
                          else fround neg mant (10 ^ nat (- ex)))))"

section \<open>generate\_intel.py: parse\_likes\<close>

text \<open>The body of the \<open>try\<close> block, on the stripped text without commas.\<close>

definition parse_likes_body :: "ustr \<Rightarrow> py_error + int" where
  "parse_likes_body s =
     (if py_in [0x4E07] s then
        (case py_float_of_str (py_replace [0x4E07] [] s) of
           Inl err \<Rightarrow> Inl err
         | Inr x \<Rightarrow> py_int_of_float (f_mul x f_10000))
      else py_int_of_str s)"

text \<open>\<open>except ValueError: return 0\<close>; any other exception leaves the function.\<close>

definition parse_likes :: "ustr \<Rightarrow> py_error + int" where
  "parse_likes s =
     (if s = [] then Inr 0
      else (case parse_likes_body (py_replace [0x2C] [] (py_strip s)) of
              Inl ValueError \<Rightarrow> Inr 0
            | Inl err \<Rightarrow> Inl err
            | Inr n \<Rightarrow> Inr n))"

section \<open>Regular expressions of the re module\<close>

text \<open>
  The patterns of \<open>smart_summary\<close> use character classes, sequence, alternation,
  greedy repetition and the anchors \<open>^\<close> and \<open>$\<close> (no flags).
\<close>

datatype rx =
    Eps
  | Chr "nat \<Rightarrow> bool"
  | Bol
  | Eol
  | Seq rx rx
  | Alt rx rx
  | Star rx

text \<open>
  The backtracking matcher: \<open>ends r s i\<close> lists the positions where a match of
  \<open>r\<close> that starts at position \<open>i\<close> of \<open>s\<close> can end, in the order in which the
  engine tries them. A greedy repetition tries one more round before it stops; a round
  that consumes nothing is not repeated. \<open>$\<close> matches at the end of the text and
  before a line feed that ends the text.
\<close>

function ends :: "rx \<Rightarrow> ustr \<Rightarrow> nat \<Rightarrow> nat list" where
  "ends Eps s i = [i]"
| "ends (Chr p) s i = (if i < length s \<and> p (s ! i) then [Suc i] else [])"
| "ends Bol s i = (if i = 0 then [i] else [])"
| "ends Eol s i = (if i = length s \<or> (Suc i = length s \<and> s ! i = 0x0A) then [i] else [])"
| "ends (Seq a b) s i = concat (map (ends b s) (ends a s i))"
| "ends (Alt a b) s i = ends a s i @ ends b s i"
| "ends (Star a) s i =
     concat (map (ends (Star a) s) (filter (\<lambda>j. i < j \<and> j \<le> length s) (ends a s i))) @ [i]"
  by pat_completeness auto
termination
  by (relation "measures [\<lambda>(r, s, i). size r, \<lambda>(r, s, i). length s - i]") auto

text \<open>\<open>r+\<close>, \<open>r{n}\<close>, at most \<open>n\<close> times \<open>r\<close>, and \<open>r{m,n}\<close>.\<close>

definition Plus :: "rx \<Rightarrow> rx" where
  "Plus r = Seq r (Star r)"

fun Times :: "nat \<Rightarrow> rx \<Rightarrow> rx" where
  "Times 0 r = Eps"
| "Times (Suc n) r = Seq r (Times n r)"

fun Upto :: "nat \<Rightarrow> rx \<Rightarrow> rx" where
  "Upto 0 r = Eps"
| "Upto (Suc n) r = Alt (Seq r (Upto n r)) Eps"

definition Between :: "nat \<Rightarrow> nat \<Rightarrow> rx \<Rightarrow> rx" where
  "Between m n r = Seq (Times m r) (Upto (n - m) r)"

text \<open>A character of a list; a character outside a list.\<close>

definition One_of :: "ustr \<Rightarrow> rx" where
  "One_of cs = Chr (\<lambda>c. c \<in> set cs)"

definition None_of :: "ustr \<Rightarrow> rx" where
  "None_of cs = Chr (\<lambda>c. c \<notin> set cs)"

text \<open>
  \<open>re.sub(r, "", s)\<close> from position \<open>p\<close> on: the search takes the leftmost position
  where \<open>r\<close> matches and there the first match of the engine, deletes it and goes on
  after it. An empty match deletes nothing.
\<close>

function re_sub_from :: "rx \<Rightarrow> ustr \<Rightarrow> nat \<Rightarrow> ustr" where
  "re_sub_from r s p =
     (if length s \<le> p then []
      else (case ends r s p of
              [] \<Rightarrow> s ! p # re_sub_from r s (Suc p)
            | e # _ \<Rightarrow>
                if p < e \<and> e \<le> length s then re_sub_from r s e
                else s ! p # re_sub_from r s (Suc p)))"
  by pat_completeness auto
termination
  by (relation "measure (\<lambda>(r, s, p). length s - p)") auto

definition re_sub :: "rx \<Rightarrow> ustr \<Rightarrow> ustr" where
  "re_sub r s = re_sub_from r s 0"

section \<open>generate\_intel.py: smart\_summary\<close>

text \<open>\<open>\d\<close> and \<open>\s\<close>.\<close>

definition rx_d :: rx where
  "rx_d = Chr is_digit"

definition rx_s :: rx where
  "rx_s = Chr py_isspace"

text \<open>The separator \<open>\s*[-\<cdot>]\s*\<close> after a date: a hyphen or a middle dot (U+00B7).\<close>

definition rx_sep :: rx where
  "rx_sep = Seq (Star rx_s) (Seq (One_of [0x2D, 0xB7]) (Star rx_s))"

text \<open>
  \<open>^\d{4}Y\d+M\d+D\s*[-\<cdot>]\s*\<close>, where Y, M and D are the characters for year
  (U+5E74), month (U+6708) and day (U+65E5).
\<close>

definition rx_date_prefix :: rx where
  "rx_date_prefix =
     Seq Bol (Seq (Times 4 rx_d) (Seq (One_of [0x5E74]) (Seq (Plus rx_d) (Seq (One_of [0x6708])
       (Seq (Plus rx_d) (Seq (One_of [0x65E5]) rx_sep))))))"

text \<open>
  \<open>^\d+\s*[units]+A\s*[-\<cdot>]\s*\<close>: the units are the seven characters of day, hour,
  minute, month and year (U+5929, U+5C0F, U+65F6, U+5206, U+949F, U+6708, U+5E74) and A
  is the character for "ago" (U+524D).
\<close>

definition rx_ago_prefix :: rx where
  "rx_ago_prefix =
     Seq Bol (Seq (Plus rx_d) (Seq (Star rx_s)
       (Seq (Plus (One_of [0x5929, 0x5C0F, 0x65F6, 0x5206, 0x949F, 0x6708, 0x5E74]))
         (Seq (One_of [0x524D]) rx_sep))))"

text \<open>
  A tag \<open>[_|][^_|...\n]+\<close>: an underscore or a bar, then characters other than those
  two, the full stop U+3002, the fullwidth marks U+FF01, U+FF1F, U+FF0C and the line feed.
\<close>

definition rx_tag :: rx where
  "rx_tag = Seq (One_of [0x5F, 0x7C]) (Plus (None_of [0x5F, 0x7C, 0x3002, 0xFF01, 0xFF1F, 0xFF0C, 0x0A]))"

text \<open>\<open>tag$\<close> and \<open>(tag)+$\<close>.\<close>

definition rx_tail_tag :: rx where
  "rx_tail_tag = Seq rx_tag Eol"

definition rx_tail_tags :: rx where
  "rx_tail_tags = Seq (Plus rx_tag) Eol"

text \<open>
  \<open>\s*[-dashes]\s*[\u4e00-\u9fa5a-zA-Z]{2,10}$\<close>, the dashes being the hyphen, the en
  dash U+2013 and the em dash U+2014.
\<close>

definition rx_tail_source :: rx where
  "rx_tail_source =
     Seq (Star rx_s) (Seq (One_of [0x2D, 0x2013, 0x2014]) (Seq (Star rx_s)
       (Seq (Between 2 10 (Chr (\<lambda>c. (0x4E00 \<le> c \<and> c \<le> 0x9FA5) \<or> (0x61 \<le> c \<and> c \<le> 0x7A)
                                   \<or> (0x41 \<le> c \<and> c \<le> 0x5A))))
            Eol)))"

text \<open>\<open>\.{3,}$|E+$\<close>, E being the ellipsis character U+2026.\<close>

definition rx_tail_dots :: rx where
  "rx_tail_dots =
     Alt (Seq (Seq (Times 3 (One_of [0x2E])) (Star (One_of [0x2E]))) Eol)
         (Seq (Plus (One_of [0x2026])) Eol)"

text \<open>
  The cleaning steps of \<open>smart_summary\<close>, from \<open>text.strip()\<close> to
  \<open>text.strip("_|E \t")\<close>.
\<close>

definition clean_text :: "ustr \<Rightarrow> ustr" where
  "clean_text text =
     py_strip_chars [0x5F, 0x7C, 0x2026, 0x20, 0x09]
       (re_sub rx_tail_dots
         (re_sub rx_tail_source
           (re_sub rx_tail_tags
             (re_sub rx_tail_tag
               (re_sub rx_ago_prefix
                 (re_sub rx_date_prefix (py_strip text)))))))"

text \<open>
  The marks tried in turn: the ideographic full stop, the fullwidth exclamation mark,
  question mark, semicolon and comma, the ideographic comma, and the ASCII comma and full
  stop.
\<close>

definition PUNCTS :: "nat list" where
  "PUNCTS = [0x3002, 0xFF01, 0xFF1F, 0xFF1B, 0xFF0C, 0x3001, 0x2C, 0x2E]"

text \<open>
  The loop \<open>for punct in [...]\<close> with its \<open>return\<close>, and the statement after it:
  \<open>return text[:max_len] + E\<close>.
\<close>

fun truncate_at :: "ustr \<Rightarrow> int \<Rightarrow> nat list \<Rightarrow> ustr" where
  "truncate_at text max_len [] = py_take max_len text @ [0x2026]"
| "truncate_at text max_len (punct # rest) =
     (let idx = py_rfind (py_take max_len text) punct in
      if max_len div 3 < idx then py_take (idx + 1) text
      else truncate_at text max_len rest)"

definition smart_summary :: "ustr \<Rightarrow> int \<Rightarrow> ustr" where
  "smart_summary text max_len =
     (if text = [] then []
      else
        let t = clean_text text in
        if t = [] then []
        else if int (length t) \<le> max_len then t
        else truncate_at t max_len PUNCTS)"

section \<open>generate\_dashboard.py: the discount model\<close>







section \<open>Auxiliary functions of the proofs\<close>

text \<open>What the loop of \<open>merge_dedupe\<close> computes: of the items whose key is not in
  \<open>seen\<close>, the first one for each key, in their order.\<close>

fun first_of_key :: "(item \<Rightarrow> ustr) \<Rightarrow> ustr set \<Rightarrow> item list \<Rightarrow> item list" where
  "first_of_key k seen [] = []"
| "first_of_key k seen (x # xs) =
     (if k x \<in> seen then first_of_key k seen xs
      else x # first_of_key k (insert (k x) seen) xs)"


section \<open>Properties of merge\_dedupe\<close>

lemma foldl_dedupe_concat:
  "foldl (\<lambda>st src. foldl (dedupe_step n) st src) st sources =
   foldl (dedupe_step n) st (concat sources)"
  by (induction sources arbitrary: st) simp_all

lemma foldl_dedupe_step:
  "foldl (dedupe_step n) (seen, acc) xs =
   (seen \<union> dedupe_key n ` set xs, acc @ first_of_key (dedupe_key n) seen xs)"
proof (induction xs arbitrary: seen acc)
  case Nil
  show ?case by simp
next
  case (Cons x xs)
  show ?case
  proof (cases "dedupe_key n x \<in> seen")
    case True
    then have "dedupe_step n (seen, acc) x = (seen, acc)"
      by (simp add: dedupe_step_def)
    with True show ?thesis
      by (simp add: Cons.IH insert_absorb)
  next
    case False
    then have "dedupe_step n (seen, acc) x = (insert (dedupe_key n x) seen, acc @ [x])"
      by (simp add: dedupe_step_def)
    with False show ?thesis
      by (simp add: Cons.IH)
  qed
qed

lemma merge_loop_eq:
  "snd (merge_loop sources n) = first_of_key (dedupe_key n) {} (concat sources)"
  by (simp add: merge_loop_def foldl_dedupe_concat foldl_dedupe_step)

lemma first_of_key_keys:
  "k ` set (first_of_key k seen xs) = k ` set xs - seen"
  by (induction xs arbitrary: seen) auto

lemma first_of_key_subset:
  "set (first_of_key k seen xs) \<subseteq> set xs"
  by (induction xs arbitrary: seen) auto

lemma first_of_key_distinct:
  "distinct (map k (first_of_key k seen xs))"
proof (induction xs arbitrary: seen)
  case Nil
  show ?case by simp
next
  case (Cons x xs)
  have "k x \<notin> k ` set (first_of_key k (insert (k x) seen) xs)"
    by (simp add: first_of_key_keys)
  with Cons.IH show ?case by simp
qed

lemma first_of_key_find:
  "x \<in> set (first_of_key k seen xs) \<Longrightarrow> find (\<lambda>y. k y = k x) xs = Some x"
proof (induction xs arbitrary: seen)
  case Nil
  then show ?case by simp
next
  case (Cons y ys)
  show ?case
  proof (cases "k y \<in> seen")
    case True
    with Cons.prems have in_rest: "x \<in> set (first_of_key k seen ys)" by simp
    then have "k x \<in> k ` set ys - seen"
      using first_of_key_keys [of k seen ys] by blast
    with True have "k y \<noteq> k x" by auto
    with Cons.IH [OF in_rest] show ?thesis by simp
  next
    case False
    with Cons.prems have "x = y \<or> x \<in> set (first_of_key k (insert (k y) seen) ys)"
      by simp
    then show ?thesis
    proof
      assume "x = y"
      then show ?thesis by simp
    next
      assume in_rest: "x \<in> set (first_of_key k (insert (k y) seen) ys)"
      then have "k x \<in> k ` set ys - insert (k y) seen"
        using first_of_key_keys [of k "insert (k y) seen" ys] by blast
      then have "k y \<noteq> k x" by auto
      with Cons.IH [OF in_rest] show ?thesis by simp
    qed
  qed
qed

lemma set_py_sort_reverse: "set (py_sort_reverse f xs) = set xs"
  by (simp add: py_sort_reverse_def)

lemma mset_py_sort_reverse: "mset (py_sort_reverse f xs) = mset xs"
  by (simp add: py_sort_reverse_def)

lemma distinct_map_py_sort_reverse:
  "distinct (map k (py_sort_reverse f xs)) = distinct (map k xs)"
proof -
  have "mset (map k (py_sort_reverse f xs)) = mset (map k xs)"
    by (simp add: mset_py_sort_reverse)
  then show ?thesis by (rule mset_eq_imp_distinct_iff)
qed

lemma py_sort_reverse_desc: "sorted_wrt (\<lambda>a b. f b \<le> f a) (py_sort_reverse f xs)"
proof -
  have "sorted (map f (sort_key f (rev xs)))" by simp
  then have "sorted_wrt (\<lambda>a b. f a \<le> f b) (sort_key f (rev xs))"
    by (simp add: sorted_wrt_map)
  then show ?thesis
    by (simp add: py_sort_reverse_def sorted_wrt_rev)
qed

lemma py_sort_reverse_stable:
  "filter (\<lambda>y. f y = k) (py_sort_reverse f xs) = filter (\<lambda>y. f y = k) xs"
proof -
  have "filter (\<lambda>y. f y = k) (py_sort_reverse f xs) =
        rev (filter (\<lambda>y. f y = k) (sort_key f (rev xs)))"
    by (simp add: py_sort_reverse_def rev_filter)
  also have "\<dots> = rev (filter (\<lambda>y. f y = k) (rev xs))"
    by (simp only: sort_key_stable)
  also have "\<dots> = filter (\<lambda>y. f y = k) xs"
    by (simp add: rev_filter)
  finally show ?thesis .
qed

lemma py_sort_reverse_nth:
  "i < j \<Longrightarrow> j < length (py_sort_reverse f xs) \<Longrightarrow>
   f (py_sort_reverse f xs ! j) \<le> f (py_sort_reverse f xs ! i)"
  using py_sort_reverse_desc [of f xs] by (simp add: sorted_wrt_iff_nth_less)

lemma merge_dedupe_eq:
  "merge_dedupe sources n =
   py_sort_reverse sort_ts (first_of_key (dedupe_key n) {} (concat sources))"
  by (simp add: merge_dedupe_def merge_loop_eq)

lemma merge_dedupe_distinct_keys:
  "distinct (map (dedupe_key n) (merge_dedupe sources n))"
  by (simp add: merge_dedupe_eq distinct_map_py_sort_reverse first_of_key_distinct)

lemma merge_dedupe_key_set:
  "dedupe_key n ` set (merge_dedupe sources n) = dedupe_key n ` set (concat sources)"
  by (simp only: merge_dedupe_eq set_py_sort_reverse first_of_key_keys Diff_empty)

lemma merge_dedupe_first:
  "x \<in> set (merge_dedupe sources n) \<Longrightarrow>
   find (\<lambda>y. dedupe_key n y = dedupe_key n x) (concat sources) = Some x"
  by (simp add: merge_dedupe_eq set_py_sort_reverse first_of_key_find)

lemmas merge_eval =
  merge_dedupe_default_def merge_dedupe_def merge_loop_def dedupe_step_def dedupe_key_def
  py_take_def py_sort_reverse_def sort_ts_def dt_min_cst_def Let_def

lemma sort_ts_known: "pub_dt x = Some t \<Longrightarrow> sort_ts x = t"
  by (simp add: sort_ts_def)

lemma sort_ts_unknown: "pub_dt x = None \<Longrightarrow> sort_ts x = dt_min_cst"
  by (simp add: sort_ts_def)

lemma filter_unknown_key:
  "filter (\<lambda>x. pub_dt x = None) (filter (\<lambda>x. sort_ts x = dt_min_cst) ys) =
   filter (\<lambda>x. pub_dt x = None) ys"
  by (induction ys) (auto simp: sort_ts_unknown)

lemma merge_dedupe_unknown_stable:
  "filter (\<lambda>x. pub_dt x = None) (merge_dedupe sources n) =
   filter (\<lambda>x. pub_dt x = None) (snd (merge_loop sources n))"
proof -
  let ?m = "snd (merge_loop sources n)"
  have "filter (\<lambda>x. pub_dt x = None) (py_sort_reverse sort_ts ?m) =
        filter (\<lambda>x. pub_dt x = None)
          (filter (\<lambda>x. sort_ts x = dt_min_cst) (py_sort_reverse sort_ts ?m))"
    by (rule filter_unknown_key [symmetric])
  also have "\<dots> = filter (\<lambda>x. pub_dt x = None) (filter (\<lambda>x. sort_ts x = dt_min_cst) ?m)"
    by (simp only: py_sort_reverse_stable)
  also have "\<dots> = filter (\<lambda>x. pub_dt x = None) ?m"
    by (rule filter_unknown_key)
  finally show ?thesis
    by (simp only: merge_dedupe_def)
qed

lemma dedupe_key_empty: "dedupe_key 20 x = [] \<longleftrightarrow> title x = []"
  by (simp add: dedupe_key_def py_take_def)

lemma ex_empty_title: "(\<exists>x \<in> A. title x = []) = ([] \<in> dedupe_key 20 ` A)"
proof
  assume "\<exists>x \<in> A. title x = []"
  then obtain x where "x \<in> A" and "dedupe_key 20 x = []"
    by (auto simp: dedupe_key_empty)
  then show "[] \<in> dedupe_key 20 ` A" by force
next
  assume "[] \<in> dedupe_key 20 ` A"
  then obtain x where "x \<in> A" and "dedupe_key 20 x = []" by force
  then show "\<exists>x \<in> A. title x = []"
    by (auto simp: dedupe_key_empty)
qed

lemma distinct_map_filter_le1:
  "distinct (map k xs) \<Longrightarrow> length (filter (\<lambda>x. k x = v) xs) \<le> 1"
proof (induction xs)
  case Nil
  then show ?case by simp
next
  case (Cons x xs)
  show ?case
  proof (cases "k x = v")
    case True
    from Cons.prems have "k x \<notin> k ` set xs" by simp
    then have "\<forall>y \<in> set xs. k y \<noteq> k x" by (metis image_eqI)
    with True have "\<forall>y \<in> set xs. k y \<noteq> v" by simp
    then have "filter (\<lambda>x. k x = v) xs = []" by (simp add: filter_empty_conv)
    with True show ?thesis by simp
  next
    case False
    with Cons show ?thesis by simp
  qed
qed



text \<open>
  C2, as far as it holds. The output of \<open>merge_dedupe\<close> is in descending order of
  time: of two neighbours with known times the first is not older than the second. An
  item without a time comes after every item whose known time is later than the
  placeholder \<open>datetime.min\<close> in UTC+8, which the sort key puts in place of a missing
  time. The items without a time keep the order they had before the sort.
\<close>

theorem merge_dedupe_order:
  assumes out: "out = merge_dedupe_default sources"
  shows "(\<forall>i a b. Suc i < length out \<and> pub_dt (out ! i) = Some a \<and> pub_dt (out ! Suc i) = Some b
            \<longrightarrow> b \<le> a) \<and>
         (\<forall>i j t. i < length out \<and> j < length out \<and> pub_dt (out ! i) = None
            \<and> pub_dt (out ! j) = Some t \<and> dt_min_cst < t \<longrightarrow> j < i) \<and>
         filter (\<lambda>x. pub_dt x = None) out =
           filter (\<lambda>x. pub_dt x = None) (snd (merge_loop sources 20))"
proof (intro conjI allI impI)
  fix i a b
  assume h: "Suc i < length out \<and> pub_dt (out ! i) = Some a \<and> pub_dt (out ! Suc i) = Some b"
  then have "sort_ts (out ! Suc i) \<le> sort_ts (out ! i)"
    unfolding out merge_dedupe_default_def merge_dedupe_def
    by (intro py_sort_reverse_nth) simp_all
  with h show "b \<le> a" by (simp add: sort_ts_known)
next
  fix i j t
  assume h: "i < length out \<and> j < length out \<and> pub_dt (out ! i) = None
      \<and> pub_dt (out ! j) = Some t \<and> dt_min_cst < t"
  show "j < i"
  proof (rule ccontr)
    assume "\<not> j < i"
    moreover from h have "i \<noteq> j" by auto
    ultimately have lt: "i < j" by simp
    with h have "sort_ts (out ! j) \<le> sort_ts (out ! i)"
      unfolding out merge_dedupe_default_def merge_dedupe_def
      by (intro py_sort_reverse_nth) simp_all
    with h show False by (simp add: sort_ts_known sort_ts_unknown)
  qed
next
  show "filter (\<lambda>x. pub_dt x = None) out =
        filter (\<lambda>x. pub_dt x = None) (snd (merge_loop sources 20))"
    unfolding out merge_dedupe_default_def by (rule merge_dedupe_unknown_stable)
qed

theorem merge_dedupe_order_witness:
  "(let a = \<lparr>title = [0x61], source = [], link = [], pub_dt = Some 5\<rparr>;
        c = \<lparr>title = [0x63], source = [], link = [], pub_dt = None\<rparr>;
        d = \<lparr>title = [0x64], source = [], link = [], pub_dt = Some 7\<rparr>;
        e = \<lparr>title = [0x65], source = [], link = [], pub_dt = None\<rparr>;
        out = merge_dedupe_default [[c, a], [d, e]]
    in out = [d, a, c, e] \<and> pub_dt (out ! 0) = Some 7 \<and> pub_dt (out ! Suc 0) = Some 5
       \<and> pub_dt (out ! 2) = None \<and> dt_min_cst < 5
       \<and> filter (\<lambda>x. pub_dt x = None) out = [c, e]
       \<and> filter (\<lambda>x. pub_dt x = None) (snd (merge_loop [[c, a], [d, e]] 20)) = [c, e])"
  using merge_dedupe_order
    [of "merge_dedupe_default
           [[\<lparr>title = [0x63], source = [], link = [], pub_dt = None\<rparr>,
             \<lparr>title = [0x61], source = [], link = [], pub_dt = Some 5\<rparr>],
            [\<lparr>title = [0x64], source = [], link = [], pub_dt = Some 7\<rparr>,
             \<lparr>title = [0x65], source = [], link = [], pub_dt = None\<rparr>]]"
        "[[\<lparr>title = [0x63], source = [], link = [], pub_dt = None\<rparr>,
           \<lparr>title = [0x61], source = [], link = [], pub_dt = Some 5\<rparr>],
          [\<lparr>title = [0x64], source = [], link = [], pub_dt = Some 7\<rparr>,
           \<lparr>title = [0x65], source = [], link = [], pub_dt = None\<rparr>]]"]
  by (simp add: merge_eval)

text \<open>
  C2 as it is stated fails: an item whose known time is the placeholder itself,
  \<open>datetime.min.replace(tzinfo=CST)\<close>, has the same sort key as an item without a time,
  and the stable sort leaves the two in their order. Here the item without a time stays
  in front of the item with a known time.
\<close>

theorem merge_dedupe_unknown_last_counterexample:
  "\<not> (\<forall>sources i j t. i < length (merge_dedupe_default sources)
        \<and> j < length (merge_dedupe_default sources)
        \<and> pub_dt (merge_dedupe_default sources ! i) = None
        \<and> pub_dt (merge_dedupe_default sources ! j) = Some t \<longrightarrow> j < i)"
proof
  let ?a = "\<lparr>title = [0x61], source = [], link = [], pub_dt = None\<rparr>"
  let ?b = "\<lparr>title = [0x62], source = [], link = [], pub_dt = Some dt_min_cst\<rparr>"
  assume all: "\<forall>sources i j t. i < length (merge_dedupe_default sources)
        \<and> j < length (merge_dedupe_default sources)
        \<and> pub_dt (merge_dedupe_default sources ! i) = None
        \<and> pub_dt (merge_dedupe_default sources ! j) = Some t \<longrightarrow> j < i"
  have ev: "merge_dedupe_default [[?a, ?b]] = [?a, ?b]"
    by (simp add: merge_eval)
  from all [rule_format, of 0 "[[?a, ?b]]" 1 dt_min_cst] show False
    by (simp add: ev)
qed

text \<open>
  C5, as far as it holds. \<open>merge_dedupe\<close> accepts items with an empty title, and
  handles the empty title as it does every other key: the output holds at most one item
  with an empty title, it holds one exactly when some source list does, and that item is
  the first item with an empty title in the concatenation of the source lists.
\<close>

theorem merge_dedupe_empty_title:
  "length (filter (\<lambda>x. title x = []) (merge_dedupe_default sources)) \<le> 1 \<and>
   ((\<exists>x \<in> set (merge_dedupe_default sources). title x = []) =
    (\<exists>x \<in> set (concat sources). title x = [])) \<and>
   (\<forall>x \<in> set (merge_dedupe_default sources). title x = [] \<longrightarrow>
      find (\<lambda>y. title y = []) (concat sources) = Some x)"
proof (intro conjI ballI impI)
  have "length (filter (\<lambda>x. dedupe_key 20 x = []) (merge_dedupe sources 20)) \<le> 1"
    by (rule distinct_map_filter_le1) (rule merge_dedupe_distinct_keys)
  then show "length (filter (\<lambda>x. title x = []) (merge_dedupe_default sources)) \<le> 1"
    by (simp add: dedupe_key_empty merge_dedupe_default_def)
next
  have "(\<exists>x \<in> set (merge_dedupe sources 20). title x = []) =
        ([] \<in> dedupe_key 20 ` set (merge_dedupe sources 20))"
    by (rule ex_empty_title)
  also have "\<dots> = ([] \<in> dedupe_key 20 ` set (concat sources))"
    by (simp only: merge_dedupe_key_set)
  also have "\<dots> = (\<exists>x \<in> set (concat sources). title x = [])"
    by (rule ex_empty_title [symmetric])
  finally show "(\<exists>x \<in> set (merge_dedupe_default sources). title x = []) =
             (\<exists>x \<in> set (concat sources). title x = [])"
    by (simp only: merge_dedupe_default_def)
next
  fix x
  assume "x \<in> set (merge_dedupe_default sources)" and e: "title x = []"
  then have "find (\<lambda>y. dedupe_key 20 y = dedupe_key 20 x) (concat sources) = Some x"
    by (simp add: merge_dedupe_default_def merge_dedupe_first)
  moreover from e have "dedupe_key 20 x = []" by (simp add: dedupe_key_empty)
  ultimately show "find (\<lambda>y. title y = []) (concat sources) = Some x"
    by (simp add: dedupe_key_empty)
qed

theorem merge_dedupe_empty_title_witness:
  "(let e1 = \<lparr>title = [], source = [0x31], link = [], pub_dt = None\<rparr>;
        a = \<lparr>title = [0x61], source = [0x31], link = [], pub_dt = Some 5\<rparr>;
        e2 = \<lparr>title = [], source = [0x32], link = [], pub_dt = Some 9\<rparr>;
        out = merge_dedupe_default [[e1, a], [e2]]
    in out = [a, e1] \<and> e1 \<in> set out \<and> title e1 = []
       \<and> find (\<lambda>y. title y = []) (concat [[e1, a], [e2]]) = Some e1)"
  using merge_dedupe_empty_title
    [of "[[\<lparr>title = [], source = [0x31], link = [], pub_dt = None\<rparr>,
           \<lparr>title = [0x61], source = [0x31], link = [], pub_dt = Some 5\<rparr>],
          [\<lparr>title = [], source = [0x32], link = [], pub_dt = Some 9\<rparr>]]"]
  by (simp add: merge_eval)

text \<open>
  C5 as it is stated fails: \<open>merge_dedupe\<close> has no test for an empty title, so an
  item with an empty title is not skipped. A single source with a single such item gives
  it back.
\<close>

theorem merge_dedupe_empty_title_counterexample:
  "\<not> (\<forall>sources. \<forall>x \<in> set (merge_dedupe_default sources). title x \<noteq> [])"
proof
  let ?e = "\<lparr>title = [], source = [0x31], link = [], pub_dt = None\<rparr>"
  assume all: "\<forall>sources. \<forall>x \<in> set (merge_dedupe_default sources). title x \<noteq> []"
  have ev: "merge_dedupe_default [[?e]] = [?e]"
    by (simp add: merge_eval)
  from all [rule_format, of ?e "[[?e]]"] show False
    by (simp add: ev)
qed

section \<open>Properties of classify\_text\<close>

lemmas classify_eval =
  classify_text_def any_kw_def KEYWORDS_ADJUST_def KEYWORDS_PROMO_def KEYWORDS_FINANCE_def
  py_lower_def lower_cp_def Let_def

lemma py_in_iff: "py_in kw t \<longleftrightarrow> (\<exists>ps ss. t = ps @ kw @ ss)"
proof (induction t)
  case Nil
  show ?case by auto
next
  case (Cons c cs)
  have pre: "(take (length kw) (c # cs) = kw) = (\<exists>ss. c # cs = kw @ ss)"
    by (metis append_eq_conv_conj append_take_drop_id)
  show ?case
  proof
    assume "py_in kw (c # cs)"
    then consider "take (length kw) (c # cs) = kw" | "py_in kw cs" by auto
    then show "\<exists>ps ss. c # cs = ps @ kw @ ss"
    proof cases
      case 1
      with pre obtain ss where "c # cs = [] @ kw @ ss" by auto
      then show ?thesis by blast
    next
      case 2
      with Cons.IH obtain ps ss where "cs = ps @ kw @ ss" by auto
      then have "c # cs = (c # ps) @ kw @ ss" by simp
      then show ?thesis by blast
    qed
  next
    assume "\<exists>ps ss. c # cs = ps @ kw @ ss"
    then obtain ps ss where e: "c # cs = ps @ kw @ ss" by auto
    show "py_in kw (c # cs)"
    proof (cases ps)
      case Nil
      with e have "c # cs = kw @ ss" by simp
      with pre have "take (length kw) (c # cs) = kw" by blast
      then show ?thesis by simp
    next
      case (Cons p ps')
      with e have "cs = ps' @ kw @ ss" by simp
      with Cons.IH show ?thesis by auto
    qed
  qed
qed

lemma py_in_set: "py_in kw t \<Longrightarrow> set kw \<subseteq> set t"
  by (auto simp: py_in_iff)

lemma py_in_lower:
  assumes "py_in kw t" and "map lower_cp kw = kw"
  shows "py_in kw (py_lower t)"
proof -
  from assms(1) obtain ps ss where "t = ps @ kw @ ss" by (auto simp: py_in_iff)
  then have "py_lower t = map lower_cp ps @ kw @ map lower_cp ss"
    by (simp add: py_lower_def assms(2))
  then show ?thesis unfolding py_in_iff by blast
qed

lemma any_kw_lower:
  assumes "any_kw kws t" and "\<forall>kw \<in> set kws. map lower_cp kw = kw"
  shows "any_kw kws (py_lower t)"
  using assms unfolding any_kw_def list_ex_iff by (blast intro: py_in_lower)

lemma adjust_kw_fixed: "\<forall>kw \<in> set KEYWORDS_ADJUST. map lower_cp kw = kw"
  by (simp add: KEYWORDS_ADJUST_def lower_cp_def)

lemma lower_cp_not_upper_I: "lower_cp c \<noteq> 0x49"
  by (auto simp: lower_cp_def)

lemma no_IPO: "\<not> py_in [0x49, 0x50, 0x4F] (py_lower t)"
proof
  assume "py_in [0x49, 0x50, 0x4F] (py_lower t)"
  then have "0x49 \<in> set (py_lower t)" using py_in_set by fastforce
  then show False by (auto simp: py_lower_def lower_cp_not_upper_I)
qed

text \<open>
  C6. \<open>classify_text\<close> gives one of the four labels; it tests the keyword lists in the
  order adjust, promo, finance on the lower-cased text and answers \<open>general\<close> when none
  matches. The four sample texts are classified as adjust, promo, finance and general, and
  every text that holds both an adjust keyword and a promo keyword is classified as
  adjust.
\<close>

theorem classify_text_priority:
  "classify_text [0x8001, 0x94FA, 0x9EC4, 0x91D1, 0x8C03, 0x4EF7, 0x901A, 0x77E5] = ''adjust'' \<and>
   classify_text [0x6EE1, 0x51CF, 0x4F18, 0x60E0, 0x6D3B, 0x52A8] = ''promo'' \<and>
   classify_text [0x51, 0x33, 0x8D22, 0x62A5, 0x53D1, 0x5E03] = ''finance'' \<and>
   classify_text [0x968F, 0x4FBF, 0x804A, 0x804A] = ''general'' \<and>
   (\<forall>text. any_kw KEYWORDS_ADJUST text \<and> any_kw KEYWORDS_PROMO text
      \<longrightarrow> classify_text text = ''adjust'') \<and>
   (\<forall>text. classify_text text =
      (if any_kw KEYWORDS_ADJUST (py_lower text) then ''adjust''
       else if any_kw KEYWORDS_PROMO (py_lower text) then ''promo''
       else if any_kw KEYWORDS_FINANCE (py_lower text) then ''finance''
       else ''general'')) \<and>
   (\<forall>text. classify_text text \<in> {''adjust'', ''promo'', ''finance'', ''general''})"
proof (intro conjI allI impI)
  show "classify_text [0x8001, 0x94FA, 0x9EC4, 0x91D1, 0x8C03, 0x4EF7, 0x901A, 0x77E5] = ''adjust''"
    by (simp add: classify_eval)
  show "classify_text [0x6EE1, 0x51CF, 0x4F18, 0x60E0, 0x6D3B, 0x52A8] = ''promo''"
    by (simp add: classify_eval)
  show "classify_text [0x51, 0x33, 0x8D22, 0x62A5, 0x53D1, 0x5E03] = ''finance''"
    by (simp add: classify_eval)
  show "classify_text [0x968F, 0x4FBF, 0x804A, 0x804A] = ''general''"
    by (simp add: classify_eval)
next
  fix s
  assume "any_kw KEYWORDS_ADJUST s \<and> any_kw KEYWORDS_PROMO s"
  then have "any_kw KEYWORDS_ADJUST (py_lower s)"
    by (simp add: any_kw_lower adjust_kw_fixed)
  then show "classify_text s = ''adjust''"
    by (simp add: classify_text_def Let_def)
next
  fix s
  show "classify_text s =
      (if any_kw KEYWORDS_ADJUST (py_lower s) then ''adjust''
       else if any_kw KEYWORDS_PROMO (py_lower s) then ''promo''
       else if any_kw KEYWORDS_FINANCE (py_lower s) then ''finance''
       else ''general'')"
    by (simp add: classify_text_def Let_def)
next
  fix s
  show "classify_text s \<in> {''adjust'', ''promo'', ''finance'', ''general''}"
    by (simp add: classify_text_def Let_def)
qed

text \<open>A text with the adjust keyword U+6DA8 U+4EF7 and the promo keyword U+4FC3 U+9500.\<close>

theorem classify_text_priority_witness:
  "any_kw KEYWORDS_ADJUST [0x6DA8, 0x4EF7, 0x4FC3, 0x9500] \<and>
   any_kw KEYWORDS_PROMO [0x6DA8, 0x4EF7, 0x4FC3, 0x9500] \<and>
   classify_text [0x6DA8, 0x4EF7, 0x4FC3, 0x9500] = ''adjust''"
proof -
  have a: "any_kw KEYWORDS_ADJUST [0x6DA8, 0x4EF7, 0x4FC3, 0x9500]"
    by (simp add: any_kw_def KEYWORDS_ADJUST_def)
  have p: "any_kw KEYWORDS_PROMO [0x6DA8, 0x4EF7, 0x4FC3, 0x9500]"
    by (simp add: any_kw_def KEYWORDS_PROMO_def)
  from classify_text_priority a p show ?thesis by blast
qed

text \<open>
  C10. The input is lower-cased before the keywords are looked up, and the finance list
  holds the upper-case string \<open>IPO\<close>: that keyword matches no input. The text made of
  U+516C U+53F8, \<open>IPO\<close> and U+4E0A U+5E02 is classified as general, and whenever the
  answer is finance, a finance keyword other than \<open>IPO\<close> occurs in the lower-cased text.
\<close>

theorem classify_text_ipo:
  "classify_text [0x516C, 0x53F8, 0x49, 0x50, 0x4F, 0x4E0A, 0x5E02] = ''general'' \<and>
   (\<forall>text. \<not> py_in [0x49, 0x50, 0x4F] (py_lower text)) \<and>
   (\<forall>text. classify_text text = ''finance'' \<longrightarrow>
      (\<exists>kw \<in> set KEYWORDS_FINANCE. kw \<noteq> [0x49, 0x50, 0x4F] \<and> py_in kw (py_lower text)))"
proof (intro conjI allI impI)
  show "classify_text [0x516C, 0x53F8, 0x49, 0x50, 0x4F, 0x4E0A, 0x5E02] = ''general''"
    by (simp add: classify_eval)
next
  fix s
  show "\<not> py_in [0x49, 0x50, 0x4F] (py_lower s)" by (rule no_IPO)
next
  fix s
  assume "classify_text s = ''finance''"
  then have "any_kw KEYWORDS_FINANCE (py_lower s)"
    by (simp add: classify_text_def Let_def split: if_splits)
  then obtain kw where kw: "kw \<in> set KEYWORDS_FINANCE" "py_in kw (py_lower s)"
    by (auto simp: any_kw_def list_ex_iff)
  with no_IPO [of s] have "kw \<noteq> [0x49, 0x50, 0x4F]" by auto
  with kw show "\<exists>kw \<in> set KEYWORDS_FINANCE. kw \<noteq> [0x49, 0x50, 0x4F] \<and> py_in kw (py_lower s)"
    by blast
qed

text \<open>The sample \<open>Q3\<close> U+8D22 U+62A5 U+53D1 U+5E03 is finance by the keyword U+8D22 U+62A5.\<close>

theorem classify_text_ipo_witness:
  "classify_text [0x51, 0x33, 0x8D22, 0x62A5, 0x53D1, 0x5E03] = ''finance'' \<and>
   [0x8D22, 0x62A5] \<in> set KEYWORDS_FINANCE \<and>
   py_in [0x8D22, 0x62A5] (py_lower [0x51, 0x33, 0x8D22, 0x62A5, 0x53D1, 0x5E03]) \<and>
   (\<exists>kw \<in> set KEYWORDS_FINANCE. kw \<noteq> [0x49, 0x50, 0x4F]
      \<and> py_in kw (py_lower [0x51, 0x33, 0x8D22, 0x62A5, 0x53D1, 0x5E03]))"
proof -
  have f: "classify_text [0x51, 0x33, 0x8D22, 0x62A5, 0x53D1, 0x5E03] = ''finance''"
    by (simp add: classify_eval)
  have k: "[0x8D22, 0x62A5] \<in> set KEYWORDS_FINANCE"
    by (simp add: KEYWORDS_FINANCE_def)
  have i: "py_in [0x8D22, 0x62A5] (py_lower [0x51, 0x33, 0x8D22, 0x62A5, 0x53D1, 0x5E03])"
    by (simp add: py_lower_def lower_cp_def)
  from classify_text_ipo f
  have "\<exists>kw \<in> set KEYWORDS_FINANCE. kw \<noteq> [0x49, 0x50, 0x4F]
      \<and> py_in kw (py_lower [0x51, 0x33, 0x8D22, 0x62A5, 0x53D1, 0x5E03])"
    by blast
  with f k i show ?thesis by blast
qed

section \<open>Properties of parse\_likes\<close>

lemmas parse_eval =
  parse_likes_def parse_likes_body_def py_strip_def strip_where_def py_isspace_def
  num_space_def py_float_of_str_def py_int_of_str_def decimal_literal_def exponent_part_def
  decimal_def is_digit_def py_lower_def lower_cp_def fround_def fround2_def scale2_def
  round_half_even_def f_10000_def Let_def bit_length.simps












lemma parse_likes_no_value_error: "parse_likes s \<noteq> Inl ValueError"
  by (auto simp: parse_likes_def split: sum.splits py_error.splits)





text \<open>
  C9. \<open>parse_likes\<close> never leaves with a \<open>ValueError\<close>, which its \<open>except\<close> clause
  turns into 0, but the clause does not catch the \<open>OverflowError\<close> that \<open>int\<close> raises for
  an infinite float: \<open>parse_likes("infW")\<close> (W the character U+4E07) raises it.
\<close>

theorem parse_likes_overflow:
  "parse_likes [0x69, 0x6E, 0x66, 0x4E07] = Inl OverflowError \<and>
   (\<forall>s. parse_likes s \<noteq> Inl ValueError)"
proof
  show "parse_likes [0x69, 0x6E, 0x66, 0x4E07] = Inl OverflowError"
    by (simp add: parse_eval)
  show "\<forall>s. parse_likes s \<noteq> Inl ValueError"
    by (simp add: parse_likes_no_value_error)
qed

section \<open>Properties of smart\_summary\<close>

lemma Times_numeral: "Times (numeral n) r = Seq r (Times (pred_numeral n) r)"
  by (simp add: numeral_eq_Suc)

lemma Upto_numeral: "Upto (numeral n) r = Alt (Seq r (Upto (pred_numeral n) r)) Eps"
  by (simp add: numeral_eq_Suc)

lemmas rx_eval =
  rx_d_def rx_s_def rx_sep_def rx_date_prefix_def rx_ago_prefix_def rx_tag_def rx_tail_tag_def
  rx_tail_tags_def rx_tail_source_def rx_tail_dots_def Plus_def Between_def One_of_def
  None_of_def is_digit_def py_isspace_def re_sub_def Times_numeral Upto_numeral

lemmas summary_eval =
  smart_summary_def clean_text_def py_strip_def py_strip_chars_def strip_where_def
  PUNCTS_def py_take_def py_rfind_def Let_def



















text \<open>
  C7. \<open>smart_summary\<close> of the text \<open>2025Y3M2D - \<close> followed by the eight-character
  headline and the tags \<open>_\<close> U+54C1 U+724C \<open>_\<close> U+5E02 U+573A, with budget 50, is the
  headline alone: the date in front and both tags at the end are removed.
\<close>

theorem smart_summary_sample:
  "smart_summary [0x32, 0x30, 0x32, 0x35, 0x5E74, 0x33, 0x6708, 0x32, 0x65E5, 0x20, 0x2D, 0x20,
      0x8001, 0x94FA, 0x9EC4, 0x91D1, 0x6DA8, 0x4EF7, 0x901A, 0x77E5,
      0x5F, 0x54C1, 0x724C, 0x5F, 0x5E02, 0x573A] 50 =
   [0x8001, 0x94FA, 0x9EC4, 0x91D1, 0x6DA8, 0x4EF7, 0x901A, 0x77E5]"
  by (simp add: summary_eval rx_eval)




section \<open>Properties of the discount model\<close>










end
